theory Spec2Isabelle
  imports Complex_Main "HOL-Library.Word" "HOL-Library.List_Lexorder"
begin

section \<open>JavaScript strings\<close>

text \<open>
  A JavaScript string is a sequence of UTF-16 code units and \<open>length\<close> counts
  code units, so a string is a list of 16-bit words. Literals of the source are
  ASCII and are written through \<open>str\<close>.
\<close>

type_synonym code_unit = "16 word"
type_synonym jsstring = "code_unit list"

definition str :: "string \<Rightarrow> jsstring" where
  "str s = map of_char s"

text \<open>
  \<open>String.prototype.trim\<close> removes WhiteSpace and LineTerminator code points from
  both ends: TAB, LF, VT, FF, CR, SP, NBSP, U+1680, U+2000 to U+200A, LS, PS,
  U+202F, U+205F, U+3000 and the byte order mark U+FEFF.
\<close>

definition js_whitespace :: "code_unit \<Rightarrow> bool" where
  "js_whitespace c \<longleftrightarrow>
     c = 0x09 \<or> c = 0x0A \<or> c = 0x0B \<or> c = 0x0C \<or> c = 0x0D \<or> c = 0x20 \<or>
     c = 0xA0 \<or> c = 0x1680 \<or> (0x2000 \<le> c \<and> c \<le> 0x200A) \<or>
     c = 0x2028 \<or> c = 0x2029 \<or> c = 0x202F \<or> c = 0x205F \<or> c = 0x3000 \<or>
     c = 0xFEFF"

definition trim :: "jsstring \<Rightarrow> jsstring" where
  "trim s = rev (dropWhile js_whitespace (rev (dropWhile js_whitespace s)))"

definition lt_sign :: code_unit where "lt_sign = 0x3C"
definition gt_sign :: code_unit where "gt_sign = 0x3E"

text \<open>
  \<^verbatim>\<open>s.replace(/[<>]/g, '')\<close>: every code unit that is a less-than sign (U+003C) or a
  greater-than sign (U+003E) is dropped.
\<close>

definition strip_angle :: "jsstring \<Rightarrow> jsstring" where
  "strip_angle s = filter (\<lambda>c. c \<noteq> lt_sign \<and> c \<noteq> gt_sign) s"

text \<open>\<open>sanitizeInput\<close> of create-post.ts, on a string argument.\<close>

definition sanitizeInput :: "jsstring \<Rightarrow> jsstring" where
  "sanitizeInput input = strip_angle (trim input)"


section \<open>JSON values and thrown values\<close>

text \<open>
  The values \<open>JSON.parse\<close> returns. A number carries the value of the parsed double.
  An object is the list of its properties in order; reading a property that is not
  there gives \<open>undefined\<close>, which is \<open>None\<close> here.
\<close>

datatype jv =
    JNull
  | JBool bool
  | JNum rat
  | JStr jsstring
  | JArr "jv list"
  | JObj "(jsstring \<times> jv) list"

text \<open>
  What a \<open>catch\<close> clause receives: an \<open>Error\<close> instance with its \<open>name\<close> and
  \<open>message\<close>, or any other thrown value.
\<close>

datatype thrown =
    Error (err_name: jsstring) (err_message: jsstring)
  | Thrown jv

text \<open>
  \<open>body.title\<close>, \<open>body.content\<close>, \<open>body.status\<close> on a value other than \<open>null\<close>.
  Strings, numbers, booleans and arrays have none of these three properties.
\<close>

fun property :: "jv \<Rightarrow> jsstring \<Rightarrow> jv option" where
  "property (JObj ps) k = map_of ps k"
| "property _ k = None"

text \<open>Truthiness of a value; \<open>undefined\<close> is falsy.\<close>

fun truthy :: "jv option \<Rightarrow> bool" where
  "truthy None = False"
| "truthy (Some JNull) = False"
| "truthy (Some (JBool b)) = b"
| "truthy (Some (JNum n)) = (n \<noteq> 0)"
| "truthy (Some (JStr s)) = (s \<noteq> [])"
| "truthy (Some (JArr xs)) = True"
| "truthy (Some (JObj ps)) = True"

section \<open>Validation (create-post.ts, validatePostData)\<close>

record validation =
  isValid :: bool
  errors :: "jsstring list"

definition title_required :: jsstring where
  "title_required = str ''Title is required and must be a non-empty string''"

definition title_too_long :: jsstring where
  "title_too_long = str ''Title must be less than 200 characters''"

definition content_required :: jsstring where
  "content_required = str ''Content is required and must be a non-empty string''"

definition content_too_long :: jsstring where
  "content_too_long = str ''Content must be less than 10,000 characters''"

definition status_invalid :: jsstring where
  "status_invalid = str ''Status must be either \"draft\" or \"published\"''"

text \<open>The first \<open>if\<close>/\<open>else if\<close> of \<open>validatePostData\<close>, on \<open>body.title\<close>.\<close>

definition title_errors :: "jv option \<Rightarrow> jsstring list" where
  "title_errors t =
     (case t of
        Some (JStr s) \<Rightarrow>
          if \<not> truthy t \<or> length (trim s) = 0 then [title_required]
          else if length (trim s) > 200 then [title_too_long]
          else []
      | _ \<Rightarrow> [title_required])"

text \<open>The second one, on \<open>body.content\<close>.\<close>

definition content_errors :: "jv option \<Rightarrow> jsstring list" where
  "content_errors c =
     (case c of
        Some (JStr s) \<Rightarrow>
          if \<not> truthy c \<or> length (trim s) = 0 then [content_required]
          else if length (trim s) > 10000 then [content_too_long]
          else []
      | _ \<Rightarrow> [content_required])"

text \<open>
  \<^verbatim>\<open>body.status && !['draft', 'published'].includes(body.status)\<close>: \<open>includes\<close>
  compares with SameValueZero, so only the two strings themselves are found.
\<close>

definition status_errors :: "jv option \<Rightarrow> jsstring list" where
  "status_errors st =
     (if truthy st \<and> st \<notin> set [Some (JStr (str ''draft'')), Some (JStr (str ''published''))]
      then [status_invalid] else [])"

text \<open>
  \<open>validatePostData(body)\<close>. Reading \<open>body.title\<close> of \<open>null\<close> throws a TypeError;
  on every other value the three rules run in order and push their messages.
\<close>

definition null_body_error :: thrown where
  "null_body_error =
     Error (str ''TypeError'') (str ''Cannot read properties of null (reading 'title')'')"

definition validatePostData :: "jv \<Rightarrow> thrown + validation" where
  "validatePostData b =
     (case b of
        JNull \<Rightarrow> Inl null_body_error
      | _ \<Rightarrow>
          (let errs = title_errors (property b (str ''title''))
                    @ content_errors (property b (str ''content''))
                    @ status_errors (property b (str ''status''))
           in Inr \<lparr>isValid = (length errs = 0), errors = errs\<rparr>))"

section \<open>The handlers\<close>

record APIGatewayProxyEvent =
  event_body :: "jsstring option"

text \<open>
  The \<open>body\<close> of a result is the JSON document that \<open>JSON.stringify\<close> writes, kept
  as a value; \<open>JSON.stringify\<close> leaves out a property whose value is \<open>undefined\<close>.
\<close>

record APIGatewayProxyResult =
  statusCode :: nat
  headers :: "(jsstring \<times> jsstring) list"
  body :: jv

text \<open>
  What an invocation reads from its surroundings: two variables of \<open>process.env\<close>,
  the identifier \<open>uuidv4()\<close> returns and the text of \<open>new Date().toISOString()\<close>.
\<close>

record runtime =
  NODE_ENV :: "jsstring option"
  POSTS_TABLE_NAME :: "jsstring option"
  uuidv4 :: jsstring
  toISOString :: jsstring

datatype condition = attribute_not_exists jsstring

record PutCommand =
  put_TableName :: "jsstring option"
  Item :: jv
  ConditionExpression :: "condition option"

text \<open>
  \<open>KeyConditionExpression\<close> with its placeholders \<open>#status\<close> and \<open>:status\<close> resolved
  through \<open>ExpressionAttributeNames\<close> and \<open>ExpressionAttributeValues\<close>: the named
  attribute equals the given value.
\<close>

record QueryCommand =
  query_TableName :: "jsstring option"
  IndexName :: "jsstring option"
  KeyCondition :: "jsstring \<times> jv"
  ScanIndexForward :: bool
  Limit :: nat

record QueryCommandOutput =
  Items :: "jv list option"

text \<open>
  \<open>docClient.send\<close>: given a command and the state of the store, either throws or
  returns an output, and leaves a state behind.
\<close>

type_synonym ('c, 'o, 's) send = "'c \<Rightarrow> 's \<Rightarrow> (thrown + 'o) \<times> 's"

definition json_headers :: "(jsstring \<times> jsstring) list" where
  "json_headers =
     [(str ''Content-Type'', str ''application/json''),
      (str ''Access-Control-Allow-Origin'', str ''*'')]"

definition errorMessage :: "thrown \<Rightarrow> jsstring" where
  "errorMessage e = (case e of Error n m \<Rightarrow> m | Thrown v \<Rightarrow> str ''Unknown error'')"

text \<open>
  The body of a 500 result: \<open>message\<close> is the error's message when \<open>NODE_ENV\<close> is
  \<open>development\<close> and \<open>undefined\<close>, hence absent from the document, otherwise.
\<close>

definition failure_body :: "runtime \<Rightarrow> jsstring \<Rightarrow> thrown \<Rightarrow> jv" where
  "failure_body env tag e =
     JObj ((str ''error'', JStr tag) #
           (if NODE_ENV env = Some (str ''development'')
            then [(str ''message'', JStr (errorMessage e))] else []))"

text \<open>The outer \<open>catch\<close> of the create-post handler.\<close>

definition create_post_catch :: "runtime \<Rightarrow> thrown \<Rightarrow> APIGatewayProxyResult" where
  "create_post_catch env e =
     (case e of
        Error n m \<Rightarrow>
          if n = str ''ConditionalCheckFailedException''
          then \<lparr>statusCode = 409, headers = json_headers,
                body = JObj [(str ''error'', JStr (str ''Post with this ID already exists''))]\<rparr>
          else \<lparr>statusCode = 500, headers = json_headers,
                body = failure_body env (str ''Failed to create post'') e\<rparr>
      | Thrown v \<Rightarrow>
          \<lparr>statusCode = 500, headers = json_headers,
           body = failure_body env (str ''Failed to create post'') e\<rparr>)"

definition invalid_json_result :: APIGatewayProxyResult where
  "invalid_json_result =
     \<lparr>statusCode = 400, headers = json_headers,
      body = JObj [(str ''error'', JStr (str ''Invalid JSON in request body''))]\<rparr>"

definition validation_failed_result :: "jsstring list \<Rightarrow> APIGatewayProxyResult" where
  "validation_failed_result errs =
     \<lparr>statusCode = 400, headers = json_headers,
      body = JObj [(str ''error'', JStr (str ''Validation failed'')),
                   (str ''details'', JArr (map JStr errs))]\<rparr>"

text \<open>The object \<open>post\<close> of the handler, once title and content are known to be strings.\<close>

definition make_post :: "runtime \<Rightarrow> jsstring \<Rightarrow> jsstring \<Rightarrow> jv option \<Rightarrow> jv" where
  "make_post env title content status =
     JObj [(str ''postId'', JStr (uuidv4 env)),
           (str ''createdAt'', JStr (toISOString env)),
           (str ''title'', JStr (sanitizeInput title)),
           (str ''content'', JStr (sanitizeInput content)),
           (str ''status'', (case status of
                              Some v \<Rightarrow> if truthy status then v else JStr (str ''draft'')
                            | None \<Rightarrow> JStr (str ''draft''))),
           (str ''updatedAt'', JStr (toISOString env))]"

definition post_put_command :: "runtime \<Rightarrow> jv \<Rightarrow> PutCommand" where
  "post_put_command env post =
     \<lparr>put_TableName = POSTS_TABLE_NAME env, Item = post,
      ConditionExpression = Some (attribute_not_exists (str ''postId''))\<rparr>"

text \<open>\<^verbatim>\<open>event.body || '{}'\<close>: a body that is \<open>null\<close> or the empty string is falsy.\<close>

definition body_text :: "APIGatewayProxyEvent \<Rightarrow> jsstring" where
  "body_text event =
     (case event_body event of
        None \<Rightarrow> str ''{}''
      | Some raw \<Rightarrow> if raw = [] then str ''{}'' else raw)"

text \<open>\<open>sanitizeInput\<close> on a value that is not a string: \<open>input.trim\<close> is not a function.\<close>

definition trim_type_error :: thrown where
  "trim_type_error = Error (str ''TypeError'') (str ''input.trim is not a function'')"

text \<open>Lines 87 to 97: the post built from the parsed body, with the fresh id and time.\<close>

definition build_post :: "runtime \<Rightarrow> jv \<Rightarrow> thrown + jv" where
  "build_post env b =
     (case (property b (str ''title''), property b (str ''content'')) of
        (Some (JStr title), Some (JStr content)) \<Rightarrow>
          Inr (make_post env title content (property b (str ''status'')))
      | _ \<Rightarrow> Inl trim_type_error)"

text \<open>
  The handler of create-post.ts. \<open>parse\<close> is \<open>JSON.parse\<close> (\<open>None\<close> when it throws
  its SyntaxError), \<open>send\<close> is \<open>docClient.send\<close> on a \<open>PutCommand\<close>.
\<close>

definition create_post_handler ::
  "(jsstring \<Rightarrow> jv option) \<Rightarrow> (PutCommand, unit, 's) send \<Rightarrow> runtime \<Rightarrow>
   APIGatewayProxyEvent \<Rightarrow> 's \<Rightarrow> APIGatewayProxyResult \<times> 's" where
  "create_post_handler parse send env event s =
     (case parse (body_text event) of
        None \<Rightarrow> (invalid_json_result, s)
      | Some b \<Rightarrow>
          (case validatePostData b of
             Inl e \<Rightarrow> (create_post_catch env e, s)
           | Inr validation \<Rightarrow>
               if \<not> isValid validation
               then (validation_failed_result (errors validation), s)
               else
                 (case build_post env b of
                    Inl e \<Rightarrow> (create_post_catch env e, s)
                  | Inr post \<Rightarrow>
                      (let (r, s') = send (post_put_command env post) s
                       in case r of
                            Inl e \<Rightarrow> (create_post_catch env e, s')
                          | Inr u \<Rightarrow>
                              (\<lparr>statusCode = 201, headers = json_headers, body = post\<rparr>,
                               s')))))"

definition published_query :: "runtime \<Rightarrow> QueryCommand" where
  "published_query env =
     \<lparr>query_TableName = POSTS_TABLE_NAME env,
      IndexName = Some (str ''StatusIndex''),
      KeyCondition = (str ''status'', JStr (str ''published'')),
      ScanIndexForward = False,
      Limit = 50\<rparr>"

definition cached_headers :: "(jsstring \<times> jsstring) list" where
  "cached_headers =
     [(str ''Content-Type'', str ''application/json''),
      (str ''Access-Control-Allow-Origin'', str ''*''),
      (str ''Cache-Control'', str ''public, max-age=300'')]"

text \<open>The handler of get-posts.ts; \<open>send\<close> is \<open>docClient.send\<close> on a \<open>QueryCommand\<close>.\<close>

definition get_posts_handler ::
  "(QueryCommand, QueryCommandOutput, 's) send \<Rightarrow> runtime \<Rightarrow>
   APIGatewayProxyEvent \<Rightarrow> 's \<Rightarrow> APIGatewayProxyResult \<times> 's" where
  "get_posts_handler send env event s =
     (let (r, s') = send (published_query env) s
      in case r of
           Inr result \<Rightarrow>
             (\<lparr>statusCode = 200, headers = cached_headers,
               body = JArr (case Items result of Some xs \<Rightarrow> xs | None \<Rightarrow> [])\<rparr>, s')
         | Inl e \<Rightarrow>
             (\<lparr>statusCode = 500, headers = json_headers,
               body = failure_body env (str ''Failed to fetch posts'') e\<rparr>, s'))"

section \<open>The table behind \<open>docClient\<close> (lib/database-stack.ts)\<close>

text \<open>
  lib/database-stack.ts declares the table with partition key \<open>postId\<close> and sort key
  \<open>createdAt\<close>, both strings, and the index \<open>StatusIndex\<close> with partition key
  \<open>status\<close> and sort key \<open>createdAt\<close>. The definitions below are the behaviour of
  that table under the two commands the handlers send: an item is identified by the
  pair of its key attributes, a condition of a put is evaluated against the item that
  has the same pair, and a query of the index returns the items whose partition key
  has the given value, in the order of the sort key, at most \<open>Limit\<close> of them.
  String keys are ordered by their code units, which for the ASCII text of
  \<open>toISOString\<close> is the order of the store. \<open>fault\<close> stands for everything
  that makes the store refuse a call whatever its command is (it cannot be reached,
  the table name is wrong, access is denied): the call then throws that value.
\<close>

record dynamodb =
  items :: "jv list"
  fault :: "thrown option"

definition table_key :: "jv \<Rightarrow> (jsstring \<times> jsstring) option" where
  "table_key item =
     (case (property item (str ''postId''), property item (str ''createdAt'')) of
        (Some (JStr p), Some (JStr c)) \<Rightarrow> Some (p, c)
      | _ \<Rightarrow> None)"

definition condition_holds :: "condition \<Rightarrow> jv option \<Rightarrow> bool" where
  "condition_holds c existing =
     (case c of attribute_not_exists a \<Rightarrow>
        (case existing of None \<Rightarrow> True | Some item \<Rightarrow> property item a = None))"

definition missing_key_error :: thrown where
  "missing_key_error =
     Error (str ''ValidationException'')
           (str ''One or more parameter values were invalid: Missing the key in the item'')"

definition conditional_check_failed :: thrown where
  "conditional_check_failed =
     Error (str ''ConditionalCheckFailedException'') (str ''The conditional request failed'')"

definition dynamodb_put :: "(PutCommand, unit, dynamodb) send" where
  "dynamodb_put cmd db =
     (case fault db of
        Some e \<Rightarrow> (Inl e, db)
      | None \<Rightarrow>
          (case table_key (Item cmd) of
             None \<Rightarrow> (Inl missing_key_error, db)
           | Some k \<Rightarrow>
               (let existing = find (\<lambda>i. table_key i = Some k) (items db)
                in if (case ConditionExpression cmd of
                         None \<Rightarrow> True
                       | Some c \<Rightarrow> condition_holds c existing)
                   then (Inr (),
                         db\<lparr>items := Item cmd #
                                      filter (\<lambda>i. table_key i \<noteq> Some k) (items db)\<rparr>)
                   else (Inl conditional_check_failed, db))))"

definition sort_key_of :: "jv \<Rightarrow> jsstring" where
  "sort_key_of item =
     (case property item (str ''createdAt'') of Some (JStr c) \<Rightarrow> c | _ \<Rightarrow> [])"

definition in_status_index :: "jv \<Rightarrow> bool" where
  "in_status_index item =
     (case (property item (str ''status''), property item (str ''createdAt'')) of
        (Some (JStr st), Some (JStr c)) \<Rightarrow> True
      | _ \<Rightarrow> False)"

definition bad_query_error :: thrown where
  "bad_query_error =
     Error (str ''ValidationException'') (str ''Query condition missed key schema element'')"

definition dynamodb_query :: "(QueryCommand, QueryCommandOutput, dynamodb) send" where
  "dynamodb_query cmd db =
     (case fault db of
        Some e \<Rightarrow> (Inl e, db)
      | None \<Rightarrow>
          (case KeyCondition cmd of
             (a, JStr v) \<Rightarrow>
               if IndexName cmd = Some (str ''StatusIndex'') \<and> a = str ''status''
               then
                 (let matching = filter (\<lambda>i. in_status_index i \<and>
                                     property i (str ''status'') = Some (JStr v)) (items db);
                      ascending = sort_key sort_key_of matching;
                      ordered = (if ScanIndexForward cmd then ascending else rev ascending)
                  in (Inr \<lparr>Items = Some (take (Limit cmd) ordered)\<rparr>, db))
               else (Inl bad_query_error, db)
           | _ \<Rightarrow> (Inl bad_query_error, db)))"

section \<open>Sample inputs\<close>

definition sample_env :: runtime where
  "sample_env =
     \<lparr>NODE_ENV = Some (str ''production''),
      POSTS_TABLE_NAME = Some (str ''blog-posts''),
      uuidv4 = str ''9b2e1c54-6f0a-4d7e-8a3b-5c1d2e3f4a5b'',
      toISOString = str ''2024-05-02T10:00:00.000Z''\<rparr>"

definition empty_db :: dynamodb where
  "empty_db = \<lparr>items = [], fault = None\<rparr>"

definition test_post :: jv where
  "test_post =
     JObj [(str ''title'', JStr (str ''Test Post'')),
           (str ''content'', JStr (str ''Test content'')),
           (str ''status'', JStr (str ''published''))]"

definition invalid_post :: jv where
  "invalid_post =
     JObj [(str ''title'', JStr []),
           (str ''content'', JStr []),
           (str ''status'', JStr (str ''invalid''))]"

definition zero_status_post :: jv where
  "zero_status_post =
     JObj [(str ''title'', JStr (str ''Test Post'')),
           (str ''content'', JStr (str ''Test content'')),
           (str ''status'', JNum 0)]"

definition tagged_post :: jv where
  "tagged_post =
     JObj [(str ''title'', JStr (str ''Hi <b>there</b>'')),
           (str ''content'', JStr (str ''Body & <i>stuff</i>'')),
           (str ''tags'', JArr [JStr (str ''news''), JStr (str ''aws'')])]"

definition letter_a :: code_unit where
  "letter_a = 0x61"

definition long_post :: jv where
  "long_post =
     JObj [(str ''content'', JStr (replicate 10000 letter_a)),
           (str ''title'', JStr (replicate 200 letter_a))]"

definition long_title_post :: jv where
  "long_title_post =
     JObj [(str ''title'', JStr (replicate 201 letter_a)),
           (str ''content'', JStr (str ''Test content''))]"

definition long_content_post :: jv where
  "long_content_post =
     JObj [(str ''title'', JStr (str ''Test Post'')),
           (str ''content'', JStr (replicate 10001 letter_a))]"

definition test_post_text :: jsstring where
  "test_post_text =
     str ''{\"title\":\"Test Post\",\"content\":\"Test content\",\"status\":\"published\"}''"

definition invalid_post_text :: jsstring where
  "invalid_post_text = str ''{\"title\":\"\",\"content\":\"\",\"status\":\"invalid\"}''"

definition zero_status_text :: jsstring where
  "zero_status_text = str ''{\"title\":\"Test Post\",\"content\":\"Test content\",\"status\":0}''"

definition tagged_post_text :: jsstring where
  "tagged_post_text =
     str ''{\"title\":\"Hi <b>there</b>\",\"content\":\"Body & <i>stuff</i>\",\"tags\":[\"news\",\"aws\"]}''"

definition long_post_text :: jsstring where
  "long_post_text =
     str ''{\"content\":\"'' @ replicate 10000 letter_a @
     str ''\",\"title\":\"'' @ replicate 200 letter_a @ str ''\"}''"

text \<open>What \<open>JSON.parse\<close> returns on six texts, and a SyntaxError on every other one.\<close>

definition parse_samples :: "jsstring \<Rightarrow> jv option" where
  "parse_samples raw =
     (if raw = str ''{}'' then Some (JObj [])
      else if raw = test_post_text then Some test_post
      else if raw = invalid_post_text then Some invalid_post
      else if raw = zero_status_text then Some zero_status_post
      else if raw = tagged_post_text then Some tagged_post
      else if raw = long_post_text then Some long_post
      else None)"

definition test_post_event :: APIGatewayProxyEvent where
  "test_post_event = \<lparr>event_body = Some test_post_text\<rparr>"

definition invalid_post_event :: APIGatewayProxyEvent where
  "invalid_post_event = \<lparr>event_body = Some invalid_post_text\<rparr>"

definition zero_status_event :: APIGatewayProxyEvent where
  "zero_status_event = \<lparr>event_body = Some zero_status_text\<rparr>"

definition tagged_post_event :: APIGatewayProxyEvent where
  "tagged_post_event = \<lparr>event_body = Some tagged_post_text\<rparr>"

definition long_post_event :: APIGatewayProxyEvent where
  "long_post_event = \<lparr>event_body = Some long_post_text\<rparr>"

definition no_body_event :: APIGatewayProxyEvent where
  "no_body_event = \<lparr>event_body = None\<rparr>"

definition empty_body_event :: APIGatewayProxyEvent where
  "empty_body_event = \<lparr>event_body = Some []\<rparr>"

definition dev_env :: runtime where
  "dev_env = sample_env\<lparr>NODE_ENV := Some (str ''development'')\<rparr>"

definition timeout_error :: thrown where
  "timeout_error = Error (str ''TimeoutError'') (str ''connect ETIMEDOUT'')"

definition down_db :: dynamodb where
  "down_db = \<lparr>items = [], fault = Some timeout_error\<rparr>"

text \<open>A stored post with the id that \<open>sample_env\<close> generates, created a day earlier.\<close>

definition older_post :: jv where
  "older_post =
     JObj [(str ''postId'', JStr (str ''9b2e1c54-6f0a-4d7e-8a3b-5c1d2e3f4a5b'')),
           (str ''createdAt'', JStr (str ''2024-05-01T09:00:00.000Z'')),
           (str ''title'', JStr (str ''Older'')),
           (str ''content'', JStr (str ''Older content'')),
           (str ''status'', JStr (str ''published'')),
           (str ''updatedAt'', JStr (str ''2024-05-01T09:00:00.000Z''))]"

definition same_id_db :: dynamodb where
  "same_id_db = \<lparr>items = [older_post], fault = None\<rparr>"

text \<open>A stored post with the id and the time of creation that \<open>sample_env\<close> generates.\<close>

definition same_key_post :: jv where
  "same_key_post =
     JObj [(str ''postId'', JStr (str ''9b2e1c54-6f0a-4d7e-8a3b-5c1d2e3f4a5b'')),
           (str ''createdAt'', JStr (str ''2024-05-02T10:00:00.000Z'')),
           (str ''title'', JStr (str ''First'')),
           (str ''content'', JStr (str ''First content'')),
           (str ''status'', JStr (str ''draft'')),
           (str ''updatedAt'', JStr (str ''2024-05-02T10:00:00.000Z''))]"

definition same_key_db :: dynamodb where
  "same_key_db = \<lparr>items = [same_key_post], fault = None\<rparr>"

text \<open>Three stored posts: two published, at times T1 before T2, and a draft after both.\<close>

definition post_t1 :: jv where
  "post_t1 =
     JObj [(str ''postId'', JStr (str ''id-1'')),
           (str ''createdAt'', JStr (str ''2024-05-01T09:00:00.000Z'')),
           (str ''title'', JStr (str ''One'')),
           (str ''content'', JStr (str ''First published'')),
           (str ''status'', JStr (str ''published'')),
           (str ''updatedAt'', JStr (str ''2024-05-01T09:00:00.000Z''))]"

definition post_t2 :: jv where
  "post_t2 =
     JObj [(str ''postId'', JStr (str ''id-2'')),
           (str ''createdAt'', JStr (str ''2024-05-02T09:00:00.000Z'')),
           (str ''title'', JStr (str ''Two'')),
           (str ''content'', JStr (str ''Second published'')),
           (str ''status'', JStr (str ''published'')),
           (str ''updatedAt'', JStr (str ''2024-05-02T09:00:00.000Z''))]"

definition draft_t3 :: jv where
  "draft_t3 =
     JObj [(str ''postId'', JStr (str ''id-3'')),
           (str ''createdAt'', JStr (str ''2024-05-03T09:00:00.000Z'')),
           (str ''title'', JStr (str ''Three'')),
           (str ''content'', JStr (str ''A draft'')),
           (str ''status'', JStr (str ''draft'')),
           (str ''updatedAt'', JStr (str ''2024-05-03T09:00:00.000Z''))]"

definition feed_db :: dynamodb where
  "feed_db = \<lparr>items = [post_t1, draft_t3, post_t2], fault = None\<rparr>"

section \<open>Trimming and sanitizing\<close>

lemma dropWhile_last: "dropWhile P xs \<noteq> [] \<Longrightarrow> last (dropWhile P xs) = last xs"
  by (induction xs) (auto split: if_splits)

lemma dropWhile_both_ends:
  "dropWhile P (rev (dropWhile P (rev (dropWhile P s)))) =
   rev (dropWhile P (rev (dropWhile P s)))"
proof -
  let ?d = "dropWhile P s"
  let ?e = "dropWhile P (rev ?d)"
  show ?thesis
  proof (cases "?e = []")
    case True
    then show ?thesis unfolding True by simp
  next
    case False
    then have "last ?e = last (rev ?d)" by (rule dropWhile_last)
    moreover have dne: "?d \<noteq> []"
    proof
      assume "?d = []"
      then have "?e = []" by (simp only: rev.simps dropWhile.simps)
      with False show False by contradiction
    qed
    ultimately have "hd (rev ?e) = hd ?d" using False by (simp add: hd_rev last_rev)
    moreover have "\<not> P (hd ?d)" using dne by (rule hd_dropWhile)
    ultimately show ?thesis by (simp add: dropWhile_eq_self_iff)
  qed
qed

lemma trim_idem: "trim (trim s) = trim s"
  by (simp add: trim_def dropWhile_both_ends)

lemma set_trim: "set (trim s) \<subseteq> set s"
  by (auto simp: trim_def dest!: set_dropWhileD)

lemma strip_angle_id: "lt_sign \<notin> set s \<Longrightarrow> gt_sign \<notin> set s \<Longrightarrow> strip_angle s = s"
  unfolding strip_angle_def by (rule filter_True) auto

lemma sanitizeInput_free:
  "lt_sign \<notin> set (sanitizeInput s) \<and> gt_sign \<notin> set (sanitizeInput s)"
  by (simp add: sanitizeInput_def strip_angle_def)

lemma sanitizeInput_twice: "sanitizeInput (sanitizeInput s) = trim (sanitizeInput s)"
proof -
  have "lt_sign \<notin> set (trim (sanitizeInput s))" "gt_sign \<notin> set (trim (sanitizeInput s))"
    using set_trim [of "sanitizeInput s"] sanitizeInput_free [of s] by auto
  then have "strip_angle (trim (sanitizeInput s)) = trim (sanitizeInput s)"
    by (rule strip_angle_id)
  then show ?thesis
    by (simp add: sanitizeInput_def [of "sanitizeInput s"])
qed

lemma not_whitespace_letter_a: "\<not> js_whitespace letter_a"
  by (simp add: js_whitespace_def letter_a_def)

lemma trim_replicate: "\<not> js_whitespace c \<Longrightarrow> trim (replicate n c) = replicate n c"
  by (cases n) (simp_all add: trim_def replicate_append_same [symmetric] del: replicate_Suc)

section \<open>Validation\<close>

lemma validatePostData_value:
  "b \<noteq> JNull \<Longrightarrow>
   validatePostData b =
     Inr \<lparr>isValid = (title_errors (property b (str ''title'')) @
                       content_errors (property b (str ''content'')) @
                       status_errors (property b (str ''status'')) = []),
          errors = title_errors (property b (str ''title'')) @
                   content_errors (property b (str ''content'')) @
                   status_errors (property b (str ''status''))\<rparr>"
  by (cases b) (simp_all add: validatePostData_def Let_def)

lemma validatePostData_null: "validatePostData JNull = Inl null_body_error"
  by (simp add: validatePostData_def)

lemma validatePostData_Inr:
  assumes "validatePostData b = Inr v"
  shows "b \<noteq> JNull"
    and "errors v = title_errors (property b (str ''title'')) @
                   content_errors (property b (str ''content'')) @
                   status_errors (property b (str ''status''))"
    and "isValid v \<longleftrightarrow> errors v = []"
proof -
  show n: "b \<noteq> JNull" using assms by (auto simp: validatePostData_null)
  from validatePostData_value [OF n] assms
  show "errors v = title_errors (property b (str ''title'')) @
                   content_errors (property b (str ''content'')) @
                   status_errors (property b (str ''status''))"
    and "isValid v \<longleftrightarrow> errors v = []" by auto
qed

lemma property_not_null: "property b k = Some x \<Longrightarrow> b \<noteq> JNull"
  by auto

lemma messages_differ:
  "title_required \<noteq> status_invalid" "title_too_long \<noteq> status_invalid"
  "content_required \<noteq> status_invalid" "content_too_long \<noteq> status_invalid"
  "title_required \<noteq> title_too_long" "content_required \<noteq> content_too_long"
  "title_required \<noteq> content_required" "title_too_long \<noteq> content_too_long"
  "title_required \<noteq> content_too_long" "title_too_long \<noteq> content_required"
  by (simp_all add: title_required_def title_too_long_def content_required_def
      content_too_long_def status_invalid_def str_def)


lemma set_title_errors: "set (title_errors t) \<subseteq> {title_required, title_too_long}"
  by (auto simp: title_errors_def split: option.splits jv.splits)

lemma set_content_errors: "set (content_errors t) \<subseteq> {content_required, content_too_long}"
  by (auto simp: content_errors_def split: option.splits jv.splits)

lemma title_at_bound:
  "length (trim t) = 200 \<Longrightarrow> title_errors (Some (JStr t)) = []"
  "length (trim t) = 201 \<Longrightarrow> title_errors (Some (JStr t)) = [title_too_long]"
  by (auto simp: title_errors_def trim_def)

lemma content_at_bound:
  "length (trim c) = 10000 \<Longrightarrow> content_errors (Some (JStr c)) = []"
  "length (trim c) = 10001 \<Longrightarrow> content_errors (Some (JStr c)) = [content_too_long]"
  by (auto simp: content_errors_def trim_def)

lemma falsy_values:
  "\<not> truthy st \<longleftrightarrow> st \<in> {None, Some JNull, Some (JBool False), Some (JNum 0), Some (JStr [])}"
  by (cases st rule: truthy.cases) auto

lemma status_invalid_iff:
  assumes "validatePostData b = Inr v"
  shows "status_invalid \<in> set (errors v) \<longleftrightarrow>
         truthy (property b (str ''status'')) \<and>
         property b (str ''status'') \<noteq> Some (JStr (str ''draft'')) \<and>
         property b (str ''status'') \<noteq> Some (JStr (str ''published''))"
proof -
  have "status_invalid \<notin> set (title_errors (property b (str ''title'')))"
    using set_title_errors [of "property b (str ''title'')"] messages_differ by auto
  moreover have "status_invalid \<notin> set (content_errors (property b (str ''content'')))"
    using set_content_errors [of "property b (str ''content'')"] messages_differ by auto
  ultimately show ?thesis
    using validatePostData_Inr(2) [OF assms] by (auto simp: status_errors_def)
qed

lemma valid_fields:
  assumes "validatePostData b = Inr v" and "isValid v"
  shows "\<exists>t c. property b (str ''title'') = Some (JStr t) \<and>
               property b (str ''content'') = Some (JStr c) \<and>
               t \<noteq> [] \<and> trim t \<noteq> [] \<and> length (trim t) \<le> 200 \<and>
               c \<noteq> [] \<and> trim c \<noteq> [] \<and> length (trim c) \<le> 10000"
    and "\<not> truthy (property b (str ''status'')) \<or>
         property b (str ''status'') = Some (JStr (str ''draft'')) \<or>
         property b (str ''status'') = Some (JStr (str ''published''))"
proof -
  from validatePostData_Inr(2,3) [OF assms(1)] assms(2)
  have e: "title_errors (property b (str ''title'')) = []"
    "content_errors (property b (str ''content'')) = []"
    "status_errors (property b (str ''status'')) = []" by auto
  from e(1) obtain t where t: "property b (str ''title'') = Some (JStr t)"
    by (auto simp: title_errors_def split: option.splits jv.splits)
  from e(2) obtain c where c: "property b (str ''content'') = Some (JStr c)"
    by (auto simp: content_errors_def split: option.splits jv.splits)
  from e(1) t have "t \<noteq> [] \<and> trim t \<noteq> [] \<and> length (trim t) \<le> 200"
    by (auto simp: title_errors_def split: if_splits)
  moreover from e(2) c have "c \<noteq> [] \<and> trim c \<noteq> [] \<and> length (trim c) \<le> 10000"
    by (auto simp: content_errors_def split: if_splits)
  ultimately show "\<exists>t c. property b (str ''title'') = Some (JStr t) \<and>
               property b (str ''content'') = Some (JStr c) \<and>
               t \<noteq> [] \<and> trim t \<noteq> [] \<and> length (trim t) \<le> 200 \<and>
               c \<noteq> [] \<and> trim c \<noteq> [] \<and> length (trim c) \<le> 10000"
    using t c by blast
  from e(3) show "\<not> truthy (property b (str ''status'')) \<or>
         property b (str ''status'') = Some (JStr (str ''draft'')) \<or>
         property b (str ''status'') = Some (JStr (str ''published''))"
    by (auto simp: status_errors_def split: if_splits)
qed

lemma empty_object_validation:
  "validatePostData (JObj []) =
     Inr \<lparr>isValid = False, errors = [title_required, content_required]\<rparr>"
  by (simp add: validatePostData_def title_errors_def content_errors_def status_errors_def
      Let_def)

section \<open>The create handler\<close>

lemma create_post_valid:
  assumes "parse (body_text event) = Some b"
    and "validatePostData b = Inr v" and "isValid v"
    and "property b (str ''title'') = Some (JStr t)"
    and "property b (str ''content'') = Some (JStr c)"
  shows "create_post_handler parse send env event s =
           (case send (post_put_command env (make_post env t c (property b (str ''status'')))) s of
              (Inl e, s') \<Rightarrow> (create_post_catch env e, s')
            | (Inr u, s') \<Rightarrow>
                (\<lparr>statusCode = 201, headers = json_headers,
                  body = make_post env t c (property b (str ''status''))\<rparr>, s'))"
  using assms by (simp add: create_post_handler_def build_post_def split: prod.splits sum.splits)

lemma make_post_status:
  "property (make_post env t c st) (str ''status'') =
     Some (case st of Some v \<Rightarrow> if truthy st then v else JStr (str ''draft'')
                    | None \<Rightarrow> JStr (str ''draft''))"
  by (simp add: make_post_def str_def)

lemma make_post_no_tags: "property (make_post env t c st) (str ''tags'') = None"
  by (simp add: make_post_def str_def)

lemma make_post_id: "property (make_post env t c st) (str ''postId'') = Some (JStr (uuidv4 env))"
  by (simp add: make_post_def)

lemma make_post_fields:
  "property (make_post env t c st) (str ''postId'') = Some (JStr (uuidv4 env))"
  "property (make_post env t c st) (str ''createdAt'') = Some (JStr (toISOString env))"
  "property (make_post env t c st) (str ''title'') = Some (JStr (sanitizeInput t))"
  "property (make_post env t c st) (str ''content'') = Some (JStr (sanitizeInput c))"
  "property (make_post env t c st) (str ''updatedAt'') = Some (JStr (toISOString env))"
  by (simp_all add: make_post_def str_def)

lemma build_post_key:
  "build_post env b = Inr post \<Longrightarrow>
   \<exists>t c. post = make_post env t c (property b (str ''status''))"
  by (auto simp: build_post_def split: option.splits jv.splits)

lemma create_post_catch_500:
  assumes "\<forall>m. e \<noteq> Error (str ''ConditionalCheckFailedException'') m"
  shows "create_post_catch env e =
           \<lparr>statusCode = 500, headers = json_headers,
            body = failure_body env (str ''Failed to create post'') e\<rparr>"
  using assms by (cases e) (auto simp: create_post_catch_def)

lemma create_post_catch_409:
  "create_post_catch env (Error (str ''ConditionalCheckFailedException'') m) =
     \<lparr>statusCode = 409, headers = json_headers,
      body = JObj [(str ''error'', JStr (str ''Post with this ID already exists''))]\<rparr>"
  by (simp add: create_post_catch_def)

section \<open>The table under the two commands\<close>

lemma table_key_make_post:
  "table_key (make_post env t c st) = Some (uuidv4 env, toISOString env)"
  by (simp add: table_key_def make_post_def str_def)

lemma dynamodb_put_post:
  assumes "fault db = None"
  shows "dynamodb_put (post_put_command env (make_post env t c st)) db =
           (if \<exists>i\<in>set (items db). table_key i = Some (uuidv4 env, toISOString env)
            then (Inl conditional_check_failed, db)
            else (Inr (), db\<lparr>items := make_post env t c st # items db\<rparr>))"
proof (cases "\<exists>i\<in>set (items db). table_key i = Some (uuidv4 env, toISOString env)")
  case True
  then obtain x where x: "find (\<lambda>i. table_key i = Some (uuidv4 env, toISOString env)) (items db) = Some x"
    by (cases "find (\<lambda>i. table_key i = Some (uuidv4 env, toISOString env)) (items db)")
       (auto simp: find_None_iff)
  then have "table_key x = Some (uuidv4 env, toISOString env)"
    by (auto simp: find_Some_iff)
  then have "property x (str ''postId'') \<noteq> None"
    by (auto simp: table_key_def split: option.splits jv.splits)
  with True x assms show ?thesis
    by (simp add: dynamodb_put_def post_put_command_def table_key_make_post condition_holds_def)
next
  case False
  then have "find (\<lambda>i. table_key i = Some (uuidv4 env, toISOString env)) (items db) = None"
    by (simp add: find_None_iff)
  moreover from False have "filter (\<lambda>i. table_key i \<noteq> Some (uuidv4 env, toISOString env)) (items db) = items db"
    by (auto intro: filter_True)
  ultimately show ?thesis using False assms
    by (simp add: dynamodb_put_def post_put_command_def table_key_make_post condition_holds_def)
qed

lemma create_post_on_table:
  assumes "parse (body_text event) = Some b"
    and "validatePostData b = Inr v" and "isValid v"
    and "build_post env b = Inr post"
    and "fault db = None"
  shows "Item (post_put_command env post) = post \<and>
         ConditionExpression (post_put_command env post) =
           Some (attribute_not_exists (str ''postId'')) \<and>
         table_key post = Some (uuidv4 env, toISOString env) \<and>
         ((\<exists>i\<in>set (items db). table_key i = table_key post) \<longrightarrow>
            create_post_handler parse dynamodb_put env event db =
              (\<lparr>statusCode = 409, headers = json_headers,
                body = JObj [(str ''error'',
                              JStr (str ''Post with this ID already exists''))]\<rparr>, db)) \<and>
         ((\<forall>i\<in>set (items db). table_key i \<noteq> table_key post) \<longrightarrow>
            create_post_handler parse dynamodb_put env event db =
              (\<lparr>statusCode = 201, headers = json_headers, body = post\<rparr>,
               db\<lparr>items := post # items db\<rparr>)) \<and>
         (send (post_put_command env post) s =
            (Inl (Error (str ''ConditionalCheckFailedException'') m), s') \<longrightarrow>
            create_post_handler parse send env event s =
              (\<lparr>statusCode = 409, headers = json_headers,
                body = JObj [(str ''error'',
                              JStr (str ''Post with this ID already exists''))]\<rparr>, s'))"
proof -
  from build_post_key [OF assms(4)] obtain t c where
    post: "post = make_post env t c (property b (str ''status''))" by blast
  have k: "table_key post = Some (uuidv4 env, toISOString env)"
    unfolding post by (rule table_key_make_post)
  have c: "Item (post_put_command env post) = post"
    "ConditionExpression (post_put_command env post) =
       Some (attribute_not_exists (str ''postId''))"
    by (simp_all add: post_put_command_def)
  have put: "dynamodb_put (post_put_command env post) db =
           (if \<exists>i\<in>set (items db). table_key i = Some (uuidv4 env, toISOString env)
            then (Inl conditional_check_failed, db)
            else (Inr (), db\<lparr>items := post # items db\<rparr>))"
    unfolding post using assms(5) by (rule dynamodb_put_post)
  have h: "create_post_handler parse send' env event s0 =
             (case send' (post_put_command env post) s0 of
                (Inl e, s1) \<Rightarrow> (create_post_catch env e, s1)
              | (Inr u, s1) \<Rightarrow> (\<lparr>statusCode = 201, headers = json_headers, body = post\<rparr>, s1))"
    for send' :: "(PutCommand, unit, 'x) send" and s0
    using assms(1-4) by (simp add: create_post_handler_def split: prod.splits sum.splits)
  have a: "create_post_handler parse dynamodb_put env event db =
              (\<lparr>statusCode = 409, headers = json_headers,
                body = JObj [(str ''error'',
                              JStr (str ''Post with this ID already exists''))]\<rparr>, db)"
    if "\<exists>i\<in>set (items db). table_key i = table_key post"
    using that by (simp add: h put k conditional_check_failed_def create_post_catch_409)
  have b: "create_post_handler parse dynamodb_put env event db =
              (\<lparr>statusCode = 201, headers = json_headers, body = post\<rparr>,
               db\<lparr>items := post # items db\<rparr>)"
    if "\<forall>i\<in>set (items db). table_key i \<noteq> table_key post"
    using that by (simp add: h put k)
  have d: "create_post_handler parse send env event s =
              (\<lparr>statusCode = 409, headers = json_headers,
                body = JObj [(str ''error'',
                              JStr (str ''Post with this ID already exists''))]\<rparr>, s')"
    if "send (post_put_command env post) s =
            (Inl (Error (str ''ConditionalCheckFailedException'') m), s')"
    using that by (simp add: h create_post_catch_409)
  from c k a b d show ?thesis by blast
qed

lemma sorted_rev_take: "sorted (rev (map f xs)) \<Longrightarrow> sorted (rev (map f (take n xs)))"
  by (metis rev_map sorted_wrt_rev sorted_wrt_take take_map)

lemma take_newest:
  assumes "sorted_wrt (\<lambda>a b. f b \<le> f a) xs"
    and "p \<in> set (take n xs)" and "i \<in> set xs" and "i \<notin> set (take n xs)"
  shows "f i \<le> f p"
proof -
  have "i \<in> set (drop n xs)"
    using assms(3,4) by (metis Un_iff append_take_drop_id set_append)
  moreover have "sorted_wrt (\<lambda>a b. f b \<le> f a) (take n xs @ drop n xs)"
    using assms(1) by simp
  ultimately show ?thesis
    using assms(2) unfolding sorted_wrt_append by blast
qed

lemma sort_key_descending:
  "sorted_wrt (\<lambda>a b. f b \<le> f a) (rev (sort_key f xs))"
proof -
  have "sorted (map f (sort_key f xs))" by simp
  then have "sorted_wrt (\<lambda>a b. f a \<le> f b) (sort_key f xs)"
    by (simp only: sorted_map)
  then show ?thesis by (simp only: sorted_wrt_rev)
qed

lemma dynamodb_query_published:
  assumes "fault db = None"
  shows "dynamodb_query (published_query env) db =
           (Inr \<lparr>Items = Some (take 50 (rev (sort_key sort_key_of
                    (filter (\<lambda>i. in_status_index i \<and>
                       property i (str ''status'') = Some (JStr (str ''published'')))
                      (items db)))))\<rparr>, db)"
  using assms by (simp add: dynamodb_query_def published_query_def)

section \<open>The sample inputs\<close>

lemma parse_samples_simps:
  "parse_samples (str ''{}'') = Some (JObj [])"
  "parse_samples test_post_text = Some test_post"
  "parse_samples invalid_post_text = Some invalid_post"
  "parse_samples zero_status_text = Some zero_status_post"
  "parse_samples tagged_post_text = Some tagged_post"
  "parse_samples long_post_text = Some long_post"
  by (simp_all add: parse_samples_def test_post_text_def invalid_post_text_def
      zero_status_text_def tagged_post_text_def long_post_text_def str_def)

lemma body_text_simps:
  "body_text no_body_event = str ''{}''"
  "body_text empty_body_event = str ''{}''"
  "body_text test_post_event = test_post_text"
  "body_text invalid_post_event = invalid_post_text"
  "body_text zero_status_event = zero_status_text"
  "body_text tagged_post_event = tagged_post_text"
  "body_text long_post_event = long_post_text"
  by (simp_all add: body_text_def no_body_event_def empty_body_event_def test_post_event_def
      invalid_post_event_def zero_status_event_def tagged_post_event_def long_post_event_def
      test_post_text_def invalid_post_text_def zero_status_text_def tagged_post_text_def
      long_post_text_def str_def)

lemma invalid_post_validation:
  "validatePostData invalid_post =
     Inr \<lparr>isValid = False, errors = [title_required, content_required, status_invalid]\<rparr>"
  by (simp add: validatePostData_def invalid_post_def title_errors_def content_errors_def
      status_errors_def str_def Let_def)

lemma zero_status_validation:
  "validatePostData zero_status_post = Inr \<lparr>isValid = True, errors = []\<rparr>"
  by (simp add: validatePostData_def zero_status_post_def title_errors_def content_errors_def
      status_errors_def str_def trim_def js_whitespace_def Let_def)

lemma zero_status_build:
  "build_post sample_env zero_status_post =
     Inr (make_post sample_env (str ''Test Post'') (str ''Test content'') (Some (JNum 0)))"
  by (simp add: build_post_def zero_status_post_def str_def)

lemma long_post_fields:
  "property long_post (str ''title'') = Some (JStr (replicate 200 letter_a))"
  "property long_post (str ''content'') = Some (JStr (replicate 10000 letter_a))"
  "property long_post (str ''status'') = None"
  "property long_title_post (str ''title'') = Some (JStr (replicate 201 letter_a))"
  "property long_content_post (str ''content'') = Some (JStr (replicate 10001 letter_a))"
  by (simp_all add: long_post_def long_title_post_def long_content_post_def str_def)

lemma tagged_post_validation:
  "validatePostData tagged_post = Inr \<lparr>isValid = True, errors = []\<rparr>"
  by (simp add: validatePostData_def tagged_post_def title_errors_def content_errors_def
      status_errors_def str_def trim_def js_whitespace_def Let_def)

lemma tagged_post_fields:
  "property tagged_post (str ''title'') = Some (JStr (str ''Hi <b>there</b>''))"
  "property tagged_post (str ''content'') = Some (JStr (str ''Body & <i>stuff</i>''))"
  "property tagged_post (str ''status'') = None"
  "property tagged_post (str ''tags'') = Some (JArr [JStr (str ''news''), JStr (str ''aws'')])"
  by (simp_all add: tagged_post_def str_def)

lemma tagged_post_created:
  "create_post_handler parse_samples dynamodb_put sample_env tagged_post_event empty_db =
     (\<lparr>statusCode = 201, headers = json_headers,
       body = make_post sample_env (str ''Hi <b>there</b>'') (str ''Body & <i>stuff</i>'') None\<rparr>,
      \<lparr>items = [make_post sample_env (str ''Hi <b>there</b>'') (str ''Body & <i>stuff</i>'') None],
       fault = None\<rparr>)"
  using create_post_valid [where parse = parse_samples and send = dynamodb_put
      and env = sample_env and event = tagged_post_event and s = empty_db and b = tagged_post
      and v = "\<lparr>isValid = True, errors = []\<rparr>" and t = "str ''Hi <b>there</b>''"
      and c = "str ''Body & <i>stuff</i>''"]
  by (simp add: parse_samples_simps body_text_simps tagged_post_validation tagged_post_fields
      dynamodb_put_post empty_db_def)

lemma zero_status_created:
  "create_post_handler parse_samples dynamodb_put sample_env zero_status_event empty_db =
     (\<lparr>statusCode = 201, headers = json_headers,
       body = make_post sample_env (str ''Test Post'') (str ''Test content'') (Some (JNum 0))\<rparr>,
      \<lparr>items = [make_post sample_env (str ''Test Post'') (str ''Test content'') (Some (JNum 0))],
       fault = None\<rparr>)"
proof -
  have f: "property zero_status_post (str ''title'') = Some (JStr (str ''Test Post''))"
    "property zero_status_post (str ''content'') = Some (JStr (str ''Test content''))"
    "property zero_status_post (str ''status'') = Some (JNum 0)"
    by (simp_all add: zero_status_post_def str_def)
  show ?thesis
    using create_post_valid [where parse = parse_samples and send = dynamodb_put
      and env = sample_env and event = zero_status_event and s = empty_db
      and b = zero_status_post and v = "\<lparr>isValid = True, errors = []\<rparr>"
      and t = "str ''Test Post''" and c = "str ''Test content''"]
    by (simp add: parse_samples_simps body_text_simps zero_status_validation f
        dynamodb_put_post empty_db_def)
qed

lemma test_post_validation:
  "validatePostData test_post = Inr \<lparr>isValid = True, errors = []\<rparr>"
  by (simp add: validatePostData_def test_post_def title_errors_def content_errors_def
      status_errors_def str_def trim_def js_whitespace_def Let_def)

lemma test_post_build:
  "build_post env test_post =
     Inr (make_post env (str ''Test Post'') (str ''Test content'')
            (Some (JStr (str ''published''))))"
  by (simp add: build_post_def test_post_def str_def)

lemma down_db_calls:
  "dynamodb_put cmd down_db = (Inl timeout_error, down_db)"
  "dynamodb_query qcmd down_db = (Inl timeout_error, down_db)"
  by (simp_all add: dynamodb_put_def dynamodb_query_def down_db_def)

lemma feed_index:
  "in_status_index post_t1" "in_status_index post_t2" "in_status_index draft_t3"
  "property post_t1 (str ''status'') = Some (JStr (str ''published''))"
  "property post_t2 (str ''status'') = Some (JStr (str ''published''))"
  "property draft_t3 (str ''status'') \<noteq> Some (JStr (str ''published''))"
  by (simp_all add: in_status_index_def post_t1_def post_t2_def draft_t3_def str_def)

lemma feed_order: "sort_key_of post_t1 \<le> sort_key_of post_t2"
  by (simp add: sort_key_of_def post_t1_def post_t2_def str_def)

lemma feed_listed:
  "get_posts_handler dynamodb_query sample_env no_body_event feed_db =
     (\<lparr>statusCode = 200, headers = cached_headers, body = JArr [post_t2, post_t1]\<rparr>, feed_db)"
  by (simp add: get_posts_handler_def dynamodb_query_published feed_db_def feed_index
      feed_order sort_key_def)

lemma older_post_id: "property older_post (str ''postId'') = Some (JStr (uuidv4 sample_env))"
  by (simp add: older_post_def sample_env_def)

lemma same_id_created:
  "create_post_handler parse_samples dynamodb_put sample_env test_post_event same_id_db =
     (\<lparr>statusCode = 201, headers = json_headers,
       body = make_post sample_env (str ''Test Post'') (str ''Test content'')
                (Some (JStr (str ''published'')))\<rparr>,
      \<lparr>items = [make_post sample_env (str ''Test Post'') (str ''Test content'')
                  (Some (JStr (str ''published''))), older_post],
       fault = None\<rparr>)"
proof -
  have k: "table_key older_post \<noteq> Some (uuidv4 sample_env, toISOString sample_env)"
    by (simp add: table_key_def older_post_def sample_env_def str_def)
  have f: "property test_post (str ''title'') = Some (JStr (str ''Test Post''))"
    "property test_post (str ''content'') = Some (JStr (str ''Test content''))"
    "property test_post (str ''status'') = Some (JStr (str ''published''))"
    by (simp_all add: test_post_def str_def)
  show ?thesis
    using create_post_valid [where parse = parse_samples and send = dynamodb_put
      and env = sample_env and event = test_post_event and s = same_id_db and b = test_post
      and v = "\<lparr>isValid = True, errors = []\<rparr>" and t = "str ''Test Post''"
      and c = "str ''Test content''"]
    by (simp add: parse_samples_simps body_text_simps test_post_validation f
        dynamodb_put_post same_id_db_def k)
qed

lemma test_post_on_tables:
  "create_post_handler parse_samples dynamodb_put sample_env test_post_event same_key_db =
     (\<lparr>statusCode = 409, headers = json_headers,
       body = JObj [(str ''error'', JStr (str ''Post with this ID already exists''))]\<rparr>,
      same_key_db) \<and>
   create_post_handler parse_samples dynamodb_put sample_env test_post_event empty_db =
     (\<lparr>statusCode = 201, headers = json_headers,
       body = make_post sample_env (str ''Test Post'') (str ''Test content'')
                (Some (JStr (str ''published'')))\<rparr>,
      \<lparr>items = [make_post sample_env (str ''Test Post'') (str ''Test content'')
                  (Some (JStr (str ''published'')))],
       fault = None\<rparr>)"
proof -
  let ?post = "make_post sample_env (str ''Test Post'') (str ''Test content'')
                (Some (JStr (str ''published'')))"
  have p: "parse_samples (body_text test_post_event) = Some test_post"
    by (simp add: parse_samples_simps body_text_simps)
  have v: "isValid \<lparr>isValid = True, errors = []\<rparr>" by simp
  have k: "table_key same_key_post = table_key ?post"
    by (simp add: table_key_make_post) (simp add: table_key_def same_key_post_def sample_env_def str_def)
  have f: "fault same_key_db = None" "fault empty_db = None"
    by (simp_all add: same_key_db_def empty_db_def)
  have ex: "\<exists>i\<in>set (items same_key_db). table_key i = table_key ?post"
    using k by (simp add: same_key_db_def)
  have none: "\<forall>i\<in>set (items empty_db). table_key i \<noteq> table_key ?post"
    by (simp add: empty_db_def)
  note at_same_key =
    create_post_on_table [where parse = parse_samples and event = test_post_event and b = test_post
        and env = sample_env and db = same_key_db and post = ?post,
        OF p test_post_validation v test_post_build f(1)]
  from at_same_key [THEN conjunct2, THEN conjunct2, THEN conjunct2, THEN conjunct1] ex
  have first:
    "create_post_handler parse_samples dynamodb_put sample_env test_post_event same_key_db =
     (\<lparr>statusCode = 409, headers = json_headers,
       body = JObj [(str ''error'', JStr (str ''Post with this ID already exists''))]\<rparr>,
      same_key_db)"
    by (rule mp)
  note at_empty =
    create_post_on_table [where parse = parse_samples and event = test_post_event and b = test_post
        and env = sample_env and db = empty_db and post = ?post,
        OF p test_post_validation v test_post_build f(2)]
  from at_empty [THEN conjunct2, THEN conjunct2, THEN conjunct2, THEN conjunct2,
      THEN conjunct1] none
  have "create_post_handler parse_samples dynamodb_put sample_env test_post_event empty_db =
       (\<lparr>statusCode = 201, headers = json_headers, body = ?post\<rparr>,
        empty_db\<lparr>items := ?post # items empty_db\<rparr>)"
    by (rule mp)
  then have second:
    "create_post_handler parse_samples dynamodb_put sample_env test_post_event empty_db =
       (\<lparr>statusCode = 201, headers = json_headers, body = ?post\<rparr>,
        \<lparr>items = [?post], fault = None\<rparr>)"
    by (simp add: empty_db_def)
  from first second show ?thesis ..
qed

section \<open>Creating a post: validation failures\<close>

text \<open>
  C1: whenever the parsed body fails validation (\<open>validatePostData\<close> returns with
  \<open>isValid\<close> false), the create handler returns status 400 with the body
  \<open>{error: 'Validation failed', details: errors}\<close>, where \<open>errors\<close> is the whole
  list the three rules produced, and the state of the store is the one it was given,
  whatever \<open>send\<close> is: no command is sent.
\<close>

theorem create_post_rejects_invalid:
  assumes "parse (body_text event) = Some b"
    and "validatePostData b = Inr v"
    and "\<not> isValid v"
  shows "create_post_handler parse send env event s =
           (\<lparr>statusCode = 400, headers = json_headers,
             body = JObj [(str ''error'', JStr (str ''Validation failed'')),
                          (str ''details'', JArr (map JStr (errors v)))]\<rparr>, s) \<and>
         errors v = title_errors (property b (str ''title'')) @
                    content_errors (property b (str ''content'')) @
                    status_errors (property b (str ''status'')) \<and>
         errors v \<noteq> []"
  using assms validatePostData_Inr [OF assms(2)]
  by (simp add: create_post_handler_def validation_failed_result_def)

theorem create_post_rejects_invalid_witness:
  "create_post_handler parse_samples dynamodb_put sample_env invalid_post_event empty_db =
   (\<lparr>statusCode = 400, headers = json_headers,
     body = JObj [(str ''error'', JStr (str ''Validation failed'')),
                  (str ''details'', JArr [JStr title_required, JStr content_required,
                                          JStr status_invalid])]\<rparr>,
    empty_db)"
  using create_post_rejects_invalid
    [where parse = parse_samples and event = invalid_post_event and b = invalid_post
      and v = "\<lparr>isValid = False, errors = [title_required, content_required, status_invalid]\<rparr>"
      and send = dynamodb_put and env = sample_env and s = empty_db]
  by (simp add: parse_samples_simps body_text_simps invalid_post_validation)



text \<open>
  C9: when the request body is absent (\<open>null\<close>) or the empty string, the handler
  parses the text \<open>{}\<close> instead; \<open>JSON.parse\<close> returns the empty object for it, and
  the handler returns the 400 validation result that lists the title and the content
  "required" messages. That result is not the "Invalid JSON" one, and the state of the
  store is untouched whatever \<open>send\<close> is.
\<close>

theorem create_post_absent_body:
  assumes "parse (str ''{}'') = Some (JObj [])"
    and "event_body event = None \<or> event_body event = Some []"
  shows "create_post_handler parse send env event s =
           (\<lparr>statusCode = 400, headers = json_headers,
             body = JObj [(str ''error'', JStr (str ''Validation failed'')),
                          (str ''details'',
                           JArr [JStr title_required, JStr content_required])]\<rparr>, s) \<and>
         fst (create_post_handler parse send env event s) \<noteq> invalid_json_result"
proof -
  have "body_text event = str ''{}''"
    using assms(2) by (auto simp: body_text_def)
  then have "create_post_handler parse send env event s =
      (validation_failed_result [title_required, content_required], s)"
    using assms(1) by (simp add: create_post_handler_def empty_object_validation)
  moreover have
    "validation_failed_result [title_required, content_required] \<noteq> invalid_json_result"
    by (simp add: validation_failed_result_def invalid_json_result_def)
  ultimately show ?thesis by (simp add: validation_failed_result_def)
qed

theorem create_post_absent_body_witness:
  "create_post_handler parse_samples dynamodb_put sample_env empty_body_event empty_db =
     (\<lparr>statusCode = 400, headers = json_headers,
       body = JObj [(str ''error'', JStr (str ''Validation failed'')),
                    (str ''details'',
                     JArr [JStr title_required, JStr content_required])]\<rparr>, empty_db)"
  using create_post_absent_body
    [where parse = parse_samples and event = empty_body_event
      and send = dynamodb_put and env = sample_env and s = empty_db]
  by (simp add: parse_samples_simps empty_body_event_def)

text \<open>
  C10: the status rule looks at the truthiness of \<open>body.status\<close>. The message
  \<open>Status must be either "draft" or "published"\<close> is among the errors exactly when
  the status is truthy and is neither of the two strings. So for every falsy status
  (missing, \<open>null\<close>, \<open>false\<close>, \<open>0\<close>, the empty string) the message is absent, and
  when the rest of the body is valid the post that is built has status \<open>draft\<close>; it
  is the body of the 201 result once the store has accepted it.
\<close>

theorem status_rule_truthiness:
  assumes "parse (body_text event) = Some b"
    and "validatePostData b = Inr v"
  shows "(status_invalid \<in> set (errors v) \<longleftrightarrow>
            truthy (property b (str ''status'')) \<and>
            property b (str ''status'') \<noteq> Some (JStr (str ''draft'')) \<and>
            property b (str ''status'') \<noteq> Some (JStr (str ''published''))) \<and>
         (property b (str ''status'') \<in>
            {None, Some JNull, Some (JBool False), Some (JNum 0), Some (JStr [])} \<longrightarrow>
          status_invalid \<notin> set (errors v) \<and>
          (isValid v \<longrightarrow>
             (\<exists>post. build_post env b = Inr post \<and>
                property post (str ''status'') = Some (JStr (str ''draft'')) \<and>
                (\<forall>s'. send (post_put_command env post) s = (Inr (), s') \<longrightarrow>
                   create_post_handler parse send env event s =
                     (\<lparr>statusCode = 201, headers = json_headers, body = post\<rparr>, s')))))"
proof (intro conjI impI)
  show "status_invalid \<in> set (errors v) \<longleftrightarrow>
            truthy (property b (str ''status'')) \<and>
            property b (str ''status'') \<noteq> Some (JStr (str ''draft'')) \<and>
            property b (str ''status'') \<noteq> Some (JStr (str ''published''))"
    using assms(2) by (rule status_invalid_iff)
next
  assume f: "property b (str ''status'') \<in>
            {None, Some JNull, Some (JBool False), Some (JNum 0), Some (JStr [])}"
  then have nt: "\<not> truthy (property b (str ''status''))" by (simp only: falsy_values)
  then show "status_invalid \<notin> set (errors v)"
    using status_invalid_iff [OF assms(2)] by simp
  assume valid: "isValid v"
  from valid_fields(1) [OF assms(2) valid] obtain t c where
    tc: "property b (str ''title'') = Some (JStr t)" "property b (str ''content'') = Some (JStr c)"
    by blast
  let ?post = "make_post env t c (property b (str ''status''))"
  have "build_post env b = Inr ?post" using tc by (simp add: build_post_def)
  moreover have "property ?post (str ''status'') = Some (JStr (str ''draft''))"
    using nt by (auto simp: make_post_status split: option.splits)
  moreover have "\<forall>s'. send (post_put_command env ?post) s = (Inr (), s') \<longrightarrow>
                   create_post_handler parse send env event s =
                     (\<lparr>statusCode = 201, headers = json_headers, body = ?post\<rparr>, s')"
    using create_post_valid [where parse = parse and send = send and env = env and event = event
        and s = s and b = b and v = v and t = t and c = c] assms valid tc by simp
  ultimately show "\<exists>post. build_post env b = Inr post \<and>
                property post (str ''status'') = Some (JStr (str ''draft'')) \<and>
                (\<forall>s'. send (post_put_command env post) s = (Inr (), s') \<longrightarrow>
                   create_post_handler parse send env event s =
                     (\<lparr>statusCode = 201, headers = json_headers, body = post\<rparr>, s'))"
    by blast
qed

theorem status_rule_truthiness_witness:
  "property (make_post sample_env (str ''Test Post'') (str ''Test content'') (Some (JNum 0)))
     (str ''status'') = Some (JStr (str ''draft'')) \<and>
   create_post_handler parse_samples dynamodb_put sample_env zero_status_event empty_db =
     (\<lparr>statusCode = 201, headers = json_headers,
       body = make_post sample_env (str ''Test Post'') (str ''Test content'') (Some (JNum 0))\<rparr>,
      \<lparr>items = [make_post sample_env (str ''Test Post'') (str ''Test content'') (Some (JNum 0))],
       fault = None\<rparr>)"
proof -
  let ?post = "make_post sample_env (str ''Test Post'') (str ''Test content'') (Some (JNum 0))"
  have st: "property zero_status_post (str ''status'') = Some (JNum 0)"
    by (simp add: zero_status_post_def str_def)
  have "\<exists>post. build_post sample_env zero_status_post = Inr post \<and>
          property post (str ''status'') = Some (JStr (str ''draft'')) \<and>
          (\<forall>s'. dynamodb_put (post_put_command sample_env post) empty_db = (Inr (), s') \<longrightarrow>
             create_post_handler parse_samples dynamodb_put sample_env zero_status_event empty_db =
               (\<lparr>statusCode = 201, headers = json_headers, body = post\<rparr>, s'))"
    using status_rule_truthiness [where parse = parse_samples and event = zero_status_event
        and b = zero_status_post and v = "\<lparr>isValid = True, errors = []\<rparr>"
        and send = dynamodb_put and env = sample_env and s = empty_db]
    by (simp add: parse_samples_simps body_text_simps zero_status_validation st)
  then obtain post where p: "build_post sample_env zero_status_post = Inr post"
    "property post (str ''status'') = Some (JStr (str ''draft''))"
    "\<forall>s'. dynamodb_put (post_put_command sample_env post) empty_db = (Inr (), s') \<longrightarrow>
       create_post_handler parse_samples dynamodb_put sample_env zero_status_event empty_db =
         (\<lparr>statusCode = 201, headers = json_headers, body = post\<rparr>, s')"
    by blast
  from p(1) have "post = ?post" by (simp add: zero_status_build)
  moreover have "dynamodb_put (post_put_command sample_env ?post) empty_db =
      (Inr (), \<lparr>items = [?post], fault = None\<rparr>)"
    by (simp add: dynamodb_put_post empty_db_def)
  ultimately show ?thesis using p(2,3) by simp
qed

text \<open>
  C4: a body whose title has trimmed length exactly 200 and whose content has trimmed
  length exactly 10000 (its status being falsy, \<open>draft\<close> or \<open>published\<close>) passes
  validation with no error, and the handler returns 201 with the created post when
  the store accepts the write. A title of trimmed length 201 fails validation with
  the title length message (and not the "required" one), and a content of trimmed
  length 10001 fails with the content length message.
\<close>

theorem length_bounds_inclusive:
  assumes "property b (str ''title'') = Some (JStr t)" and "length (trim t) = 200"
    and "property b (str ''content'') = Some (JStr c)" and "length (trim c) = 10000"
    and "\<not> truthy (property b (str ''status'')) \<or>
         property b (str ''status'') = Some (JStr (str ''draft'')) \<or>
         property b (str ''status'') = Some (JStr (str ''published''))"
    and "parse (body_text event) = Some b"
    and "send (post_put_command env (make_post env t c (property b (str ''status'')))) s =
           (Inr (), s')"
    and "property b2 (str ''title'') = Some (JStr t2)" and "length (trim t2) = 201"
    and "property b3 (str ''content'') = Some (JStr c3)" and "length (trim c3) = 10001"
  shows "validatePostData b = Inr \<lparr>isValid = True, errors = []\<rparr> \<and>
         create_post_handler parse send env event s =
           (\<lparr>statusCode = 201, headers = json_headers,
             body = make_post env t c (property b (str ''status''))\<rparr>, s') \<and>
         (\<exists>v2. validatePostData b2 = Inr v2 \<and> \<not> isValid v2 \<and>
               hd (errors v2) = title_too_long \<and> title_required \<notin> set (errors v2)) \<and>
         (\<exists>v3. validatePostData b3 = Inr v3 \<and> \<not> isValid v3 \<and>
               content_too_long \<in> set (errors v3) \<and> content_required \<notin> set (errors v3))"
proof (intro conjI)
  have st: "status_errors (property b (str ''status'')) = []"
    using assms(5) by (auto simp: status_errors_def)
  show v: "validatePostData b = Inr \<lparr>isValid = True, errors = []\<rparr>"
    using validatePostData_value [OF property_not_null [OF assms(1)]]
    by (simp add: assms(1,3) title_at_bound(1) [OF assms(2)] content_at_bound(1) [OF assms(4)] st)
  show "create_post_handler parse send env event s =
           (\<lparr>statusCode = 201, headers = json_headers,
             body = make_post env t c (property b (str ''status''))\<rparr>, s')"
    using create_post_valid [where parse = parse and send = send and env = env
        and event = event and s = s and b = b and t = t and c = c
        and v = "\<lparr>isValid = True, errors = []\<rparr>"] v assms(1,3,6,7)
    by simp
next
  let ?rest = "content_errors (property b2 (str ''content'')) @
               status_errors (property b2 (str ''status''))"
  have "title_required \<notin> set ?rest"
    using set_content_errors [of "property b2 (str ''content'')"] messages_differ
    by (auto simp: status_errors_def)
  then show "\<exists>v2. validatePostData b2 = Inr v2 \<and> \<not> isValid v2 \<and>
               hd (errors v2) = title_too_long \<and> title_required \<notin> set (errors v2)"
    using validatePostData_value [OF property_not_null [OF assms(8)]] messages_differ
    by (simp add: assms(8) title_at_bound(2) [OF assms(9)])
next
  let ?t = "title_errors (property b3 (str ''title''))"
  let ?s = "status_errors (property b3 (str ''status''))"
  have "content_required \<notin> set ?t" "content_required \<notin> set ?s"
    using set_title_errors [of "property b3 (str ''title'')"] messages_differ
    by (auto simp: status_errors_def)
  then show "\<exists>v3. validatePostData b3 = Inr v3 \<and> \<not> isValid v3 \<and>
               content_too_long \<in> set (errors v3) \<and> content_required \<notin> set (errors v3)"
    using validatePostData_value [OF property_not_null [OF assms(10)]] messages_differ
    by (simp add: assms(10) content_at_bound(2) [OF assms(11)])
qed

theorem length_bounds_inclusive_witness:
  "validatePostData long_post = Inr \<lparr>isValid = True, errors = []\<rparr> \<and>
   create_post_handler parse_samples dynamodb_put sample_env long_post_event empty_db =
     (\<lparr>statusCode = 201, headers = json_headers,
       body = make_post sample_env (replicate 200 letter_a) (replicate 10000 letter_a) None\<rparr>,
      \<lparr>items = [make_post sample_env (replicate 200 letter_a) (replicate 10000 letter_a) None],
       fault = None\<rparr>) \<and>
   (\<exists>v2. validatePostData long_title_post = Inr v2 \<and> \<not> isValid v2 \<and>
         hd (errors v2) = title_too_long \<and> title_required \<notin> set (errors v2)) \<and>
   (\<exists>v3. validatePostData long_content_post = Inr v3 \<and> \<not> isValid v3 \<and>
         content_too_long \<in> set (errors v3) \<and> content_required \<notin> set (errors v3))"
proof -
  let ?post = "make_post sample_env (replicate 200 letter_a) (replicate 10000 letter_a) None"
  have put: "dynamodb_put (post_put_command sample_env ?post) empty_db =
      (Inr (), \<lparr>items = [?post], fault = None\<rparr>)"
    by (simp add: dynamodb_put_post empty_db_def)
  have tr: "trim (replicate n letter_a) = replicate n letter_a" for n
    using not_whitespace_letter_a by (rule trim_replicate)
  show ?thesis
    using length_bounds_inclusive [where b = long_post and t = "replicate 200 letter_a"
        and c = "replicate 10000 letter_a" and parse = parse_samples
        and event = long_post_event and send = dynamodb_put and env = sample_env
        and s = empty_db and s' = "\<lparr>items = [?post], fault = None\<rparr>"
        and ?b2.0 = long_title_post and ?t2.0 = "replicate 201 letter_a"
        and ?b3.0 = long_content_post and ?c3.0 = "replicate 10001 letter_a"]
    by (simp add: long_post_fields tr parse_samples_simps body_text_simps put)
qed

section \<open>Creating a post: the stored post\<close>

text \<open>
  C5, as the claim states it, fails: \<open>sanitizeInput\<close> trims before it strips, so
  stripping can uncover white space that only a second pass trims. On the three code
  units less-than, space, \<open>a\<close> the first pass gives space, \<open>a\<close> and the second
  gives \<open>a\<close>.
\<close>

theorem sanitize_not_idempotent_counterexample:
  "sanitizeInput (str ''< a'') = str '' a'' \<and>
   sanitizeInput (sanitizeInput (str ''< a'')) = str ''a'' \<and>
   sanitizeInput (sanitizeInput (str ''< a'')) \<noteq> sanitizeInput (str ''< a'')"
  by (simp add: str_def lt_sign_def gt_sign_def sanitizeInput_def trim_def strip_angle_def
      js_whitespace_def)

text \<open>
  C5, amended: for every string \<open>s\<close>, \<open>sanitizeInput s\<close> contains neither a
  less-than nor a greater-than sign; a second pass does nothing but trim the result
  of the first; and \<open>sanitizeInput\<close> is idempotent on every \<open>s\<close> that contains
  neither sign.
\<close>

theorem sanitize_second_pass:
  "lt_sign \<notin> set (sanitizeInput s) \<and> gt_sign \<notin> set (sanitizeInput s) \<and>
   sanitizeInput (sanitizeInput s) = trim (sanitizeInput s) \<and>
   (lt_sign \<notin> set s \<and> gt_sign \<notin> set s \<longrightarrow>
      sanitizeInput (sanitizeInput s) = sanitizeInput s)"
proof -
  have "sanitizeInput (sanitizeInput s) = sanitizeInput s"
    if a: "lt_sign \<notin> set s" "gt_sign \<notin> set s"
  proof -
    have "lt_sign \<notin> set (trim s)" "gt_sign \<notin> set (trim s)"
      using a set_trim [of s] by auto
    then have "sanitizeInput s = trim s"
      unfolding sanitizeInput_def by (rule strip_angle_id)
    then show ?thesis
      using sanitizeInput_twice [of s] by (simp add: trim_idem)
  qed
  then show ?thesis
    using sanitizeInput_free [of s] sanitizeInput_twice [of s] by blast
qed

theorem sanitize_second_pass_witness:
  "lt_sign \<notin> set (str '' ab '') \<and> gt_sign \<notin> set (str '' ab '') \<and>
   sanitizeInput (str '' ab '') = str ''ab'' \<and>
   sanitizeInput (sanitizeInput (str '' ab '')) = sanitizeInput (str '' ab '')"
  using sanitize_second_pass [of "str '' ab ''"]
  by (simp add: str_def lt_sign_def gt_sign_def sanitizeInput_def trim_def strip_angle_def
      js_whitespace_def)

text \<open>
  C3, as the claim states it, fails on two candidates. One has a \<open>tags\<close> field:
  it is created with status 201 and the body of the result has no \<open>tags\<close> field.
  The other has the status \<open>0\<close>: it is created with status 201 and the status of
  the created post is \<open>draft\<close>, not the candidate's.
\<close>

theorem created_post_fields_counterexample:
  "property tagged_post (str ''tags'') = Some (JArr [JStr (str ''news''), JStr (str ''aws'')]) \<and>
   statusCode (fst (create_post_handler parse_samples dynamodb_put sample_env
                      tagged_post_event empty_db)) = 201 \<and>
   property (body (fst (create_post_handler parse_samples dynamodb_put sample_env
                      tagged_post_event empty_db))) (str ''tags'') = None \<and>
   property zero_status_post (str ''status'') = Some (JNum 0) \<and>
   statusCode (fst (create_post_handler parse_samples dynamodb_put sample_env
                      zero_status_event empty_db)) = 201 \<and>
   property (body (fst (create_post_handler parse_samples dynamodb_put sample_env
                      zero_status_event empty_db))) (str ''status'') =
     Some (JStr (str ''draft''))"
  unfolding tagged_post_created zero_status_created
  by (simp add: tagged_post_fields make_post_no_tags make_post_status)
     (simp add: zero_status_post_def str_def)

text \<open>
  C3, amended: sanitization is applied to title and content only. When the body is
  valid and the store accepts the write, the handler returns 201 and the body is the
  created post, in which \<open>postId\<close> is the generated id, \<open>createdAt\<close> and
  \<open>updatedAt\<close> are the time of creation, \<open>title\<close> and \<open>content\<close> are the
  sanitized title and content of the candidate, and \<open>status\<close> is the candidate's
  status when that is \<open>published\<close> or \<open>draft\<close>, and \<open>draft\<close> when it is falsy.
  Nothing is stated about \<open>tags\<close>.
\<close>

theorem created_post_fields:
  assumes "parse (body_text event) = Some b"
    and "validatePostData b = Inr v" and "isValid v"
    and "property b (str ''title'') = Some (JStr t)"
    and "property b (str ''content'') = Some (JStr c)"
    and "send (post_put_command env (make_post env t c (property b (str ''status'')))) s =
           (Inr (), s')"
  shows "\<exists>post. create_post_handler parse send env event s =
                   (\<lparr>statusCode = 201, headers = json_headers, body = post\<rparr>, s') \<and>
                property post (str ''postId'') = Some (JStr (uuidv4 env)) \<and>
                property post (str ''createdAt'') = Some (JStr (toISOString env)) \<and>
                property post (str ''updatedAt'') = Some (JStr (toISOString env)) \<and>
                property post (str ''title'') = Some (JStr (sanitizeInput t)) \<and>
                property post (str ''content'') = Some (JStr (sanitizeInput c)) \<and>
                property post (str ''status'') =
                  Some (if property b (str ''status'') = Some (JStr (str ''published''))
                        then JStr (str ''published'') else JStr (str ''draft''))"
proof -
  let ?post = "make_post env t c (property b (str ''status''))"
  have st: "property ?post (str ''status'') =
              Some (if property b (str ''status'') = Some (JStr (str ''published''))
                    then JStr (str ''published'') else JStr (str ''draft''))"
  proof -
    have "(case property b (str ''status'') of
             Some x \<Rightarrow> if truthy (property b (str ''status'')) then x else JStr (str ''draft'')
           | None \<Rightarrow> JStr (str ''draft'')) =
          (if property b (str ''status'') = Some (JStr (str ''published''))
           then JStr (str ''published'') else JStr (str ''draft''))"
      using valid_fields(2) [OF assms(2,3)] by (auto simp: str_def split: option.splits)
    then show ?thesis by (simp only: make_post_status)
  qed
  have h: "create_post_handler parse send env event s =
             (\<lparr>statusCode = 201, headers = json_headers, body = ?post\<rparr>, s')"
    using create_post_valid [where parse = parse and send = send and env = env
        and event = event and s = s and b = b and t = t and c = c and v = v] assms
    by simp
  from h st make_post_fields [of env t c "property b (str ''status'')"]
  show ?thesis by blast
qed

theorem created_post_fields_witness:
  "\<exists>post. create_post_handler parse_samples dynamodb_put sample_env tagged_post_event empty_db =
            (\<lparr>statusCode = 201, headers = json_headers, body = post\<rparr>,
             \<lparr>items = [post], fault = None\<rparr>) \<and>
          property post (str ''postId'') =
            Some (JStr (str ''9b2e1c54-6f0a-4d7e-8a3b-5c1d2e3f4a5b'')) \<and>
          property post (str ''createdAt'') = Some (JStr (str ''2024-05-02T10:00:00.000Z'')) \<and>
          property post (str ''updatedAt'') = Some (JStr (str ''2024-05-02T10:00:00.000Z'')) \<and>
          property post (str ''title'') = Some (JStr (str ''Hi bthere/b'')) \<and>
          property post (str ''content'') = Some (JStr (str ''Body & istuff/i'')) \<and>
          property post (str ''status'') = Some (JStr (str ''draft''))"
proof -
  let ?post = "make_post sample_env (str ''Hi <b>there</b>'') (str ''Body & <i>stuff</i>'') None"
  have put: "dynamodb_put (post_put_command sample_env ?post) empty_db =
      (Inr (), \<lparr>items = [?post], fault = None\<rparr>)"
    by (simp add: dynamodb_put_post empty_db_def)
  have san: "sanitizeInput (str ''Hi <b>there</b>'') = str ''Hi bthere/b''"
    "sanitizeInput (str ''Body & <i>stuff</i>'') = str ''Body & istuff/i''"
    by (simp_all add: sanitizeInput_def str_def trim_def strip_angle_def js_whitespace_def
        lt_sign_def gt_sign_def)
  have env: "uuidv4 sample_env = str ''9b2e1c54-6f0a-4d7e-8a3b-5c1d2e3f4a5b''"
    "toISOString sample_env = str ''2024-05-02T10:00:00.000Z''"
    by (simp_all add: sample_env_def)
  from created_post_fields [where parse = parse_samples and send = dynamodb_put
      and env = sample_env and event = tagged_post_event and s = empty_db and b = tagged_post
      and v = "\<lparr>isValid = True, errors = []\<rparr>" and t = "str ''Hi <b>there</b>''"
      and c = "str ''Body & <i>stuff</i>''" and s' = "\<lparr>items = [?post], fault = None\<rparr>"]
  obtain post where p:
    "create_post_handler parse_samples dynamodb_put sample_env tagged_post_event empty_db =
       (\<lparr>statusCode = 201, headers = json_headers, body = post\<rparr>,
        \<lparr>items = [?post], fault = None\<rparr>)"
    "property post (str ''postId'') = Some (JStr (uuidv4 sample_env))"
    "property post (str ''createdAt'') = Some (JStr (toISOString sample_env))"
    "property post (str ''updatedAt'') = Some (JStr (toISOString sample_env))"
    "property post (str ''title'') = Some (JStr (sanitizeInput (str ''Hi <b>there</b>'')))"
    "property post (str ''content'') = Some (JStr (sanitizeInput (str ''Body & <i>stuff</i>'')))"
    "property post (str ''status'') = Some (JStr (str ''draft''))"
    by (auto simp: parse_samples_simps body_text_simps tagged_post_validation
        tagged_post_fields put)
  from p(1) have "post = ?post" by (simp add: tagged_post_created)
  with p show ?thesis by (simp add: san env)
qed

text \<open>
  C6: the handler means to refuse a post whose generated id is already taken: it
  sends the put with the condition \<open>attribute_not_exists(postId)\<close> and answers a
  refusal with 409 and \<open>Post with this ID already exists\<close>. The table, though, is
  keyed by the pair of \<open>postId\<close> and \<open>createdAt\<close>, so the condition is evaluated
  against the item with the same id and the same time of creation only. Evaluated
  here on a table that already holds a post with the generated id, created a day
  earlier: the write is accepted, the handler returns 201, and the table then holds
  two records with that id.
\<close>

theorem same_id_later_time_accepted:
  "property older_post (str ''postId'') = Some (JStr (uuidv4 sample_env)) \<and>
   older_post \<in> set (items same_id_db) \<and>
   statusCode (fst (create_post_handler parse_samples dynamodb_put sample_env
                      test_post_event same_id_db)) = 201 \<and>
   map (\<lambda>i. property i (str ''postId''))
     (items (snd (create_post_handler parse_samples dynamodb_put sample_env
                    test_post_event same_id_db))) =
     [Some (JStr (uuidv4 sample_env)), Some (JStr (uuidv4 sample_env))]"
  unfolding same_id_created
  by (simp add: same_id_db_def make_post_id older_post_id)

section \<open>Store failures and the list of published posts\<close>

text \<open>
  C8: when \<open>docClient.send\<close> throws, the create handler (for any thrown value but an
  \<open>Error\<close> named \<open>ConditionalCheckFailedException\<close>, which is the declared conflict)
  and the list handler (for any thrown value) return status 500 with the error tag
  \<open>Failed to create post\<close>, respectively \<open>Failed to fetch posts\<close>. The body has a
  \<open>message\<close> with the detail exactly when \<open>NODE_ENV\<close> is \<open>development\<close>.
\<close>

theorem store_failure_is_500:
  assumes "parse (body_text event) = Some b"
    and "validatePostData b = Inr v" and "isValid v"
    and "build_post env b = Inr post"
    and "send (post_put_command env post) s = (Inl e, s')"
    and "\<forall>m. e \<noteq> Error (str ''ConditionalCheckFailedException'') m"
    and "query (published_query env) q = (Inl e2, q')"
  shows "create_post_handler parse send env event s =
           (\<lparr>statusCode = 500, headers = json_headers,
             body = JObj ((str ''error'', JStr (str ''Failed to create post'')) #
                          (if NODE_ENV env = Some (str ''development'')
                           then [(str ''message'', JStr (errorMessage e))] else []))\<rparr>, s') \<and>
         get_posts_handler query env event2 q =
           (\<lparr>statusCode = 500, headers = json_headers,
             body = JObj ((str ''error'', JStr (str ''Failed to fetch posts'')) #
                          (if NODE_ENV env = Some (str ''development'')
                           then [(str ''message'', JStr (errorMessage e2))] else []))\<rparr>, q')"
proof
  have "create_post_handler parse send env event s = (create_post_catch env e, s')"
    using assms(1-5) by (simp add: create_post_handler_def)
  then show "create_post_handler parse send env event s =
           (\<lparr>statusCode = 500, headers = json_headers,
             body = JObj ((str ''error'', JStr (str ''Failed to create post'')) #
                          (if NODE_ENV env = Some (str ''development'')
                           then [(str ''message'', JStr (errorMessage e))] else []))\<rparr>, s')"
    by (simp only: create_post_catch_500 [OF assms(6)] failure_body_def)
  show "get_posts_handler query env event2 q =
           (\<lparr>statusCode = 500, headers = json_headers,
             body = JObj ((str ''error'', JStr (str ''Failed to fetch posts'')) #
                          (if NODE_ENV env = Some (str ''development'')
                           then [(str ''message'', JStr (errorMessage e2))] else []))\<rparr>, q')"
    using assms(7) by (simp add: get_posts_handler_def failure_body_def)
qed

theorem store_failure_is_500_witness:
  "create_post_handler parse_samples dynamodb_put dev_env test_post_event down_db =
     (\<lparr>statusCode = 500, headers = json_headers,
       body = JObj [(str ''error'', JStr (str ''Failed to create post'')),
                    (str ''message'', JStr (str ''connect ETIMEDOUT''))]\<rparr>, down_db) \<and>
   get_posts_handler dynamodb_query dev_env no_body_event down_db =
     (\<lparr>statusCode = 500, headers = json_headers,
       body = JObj [(str ''error'', JStr (str ''Failed to fetch posts'')),
                    (str ''message'', JStr (str ''connect ETIMEDOUT''))]\<rparr>, down_db) \<and>
   create_post_handler parse_samples dynamodb_put sample_env test_post_event down_db =
     (\<lparr>statusCode = 500, headers = json_headers,
       body = JObj [(str ''error'', JStr (str ''Failed to create post''))]\<rparr>, down_db) \<and>
   get_posts_handler dynamodb_query sample_env no_body_event down_db =
     (\<lparr>statusCode = 500, headers = json_headers,
       body = JObj [(str ''error'', JStr (str ''Failed to fetch posts''))]\<rparr>, down_db)"
proof -
  have ne: "\<forall>m. timeout_error \<noteq> Error (str ''ConditionalCheckFailedException'') m"
    by (simp add: timeout_error_def str_def)
  have msg: "errorMessage timeout_error = str ''connect ETIMEDOUT''"
    by (simp add: errorMessage_def timeout_error_def)
  have env: "NODE_ENV dev_env = Some (str ''development'')"
    "NODE_ENV sample_env \<noteq> Some (str ''development'')"
    by (simp_all add: dev_env_def sample_env_def str_def)
  note dev = store_failure_is_500 [where parse = parse_samples and event = test_post_event and b = test_post
      and v = "\<lparr>isValid = True, errors = []\<rparr>" and env = dev_env and send = dynamodb_put
      and s = down_db and s' = down_db and e = timeout_error and query = dynamodb_query
      and q = down_db and q' = down_db and ?e2.0 = timeout_error and ?event2.0 = no_body_event,
      OF _ test_post_validation _ test_post_build down_db_calls(1) ne down_db_calls(2)]
  note prod = store_failure_is_500 [where parse = parse_samples and event = test_post_event
      and b = test_post and v = "\<lparr>isValid = True, errors = []\<rparr>" and env = sample_env
      and send = dynamodb_put and s = down_db and s' = down_db and e = timeout_error
      and query = dynamodb_query and q = down_db and q' = down_db and ?e2.0 = timeout_error
      and ?event2.0 = no_body_event,
      OF _ test_post_validation _ test_post_build down_db_calls(1) ne down_db_calls(2)]
  show ?thesis
    using dev prod by (simp add: parse_samples_simps body_text_simps msg env)
qed

text \<open>
  C2: on the table of lib/database-stack.ts, when the store answers, the list handler
  returns status 200 and an array \<open>ps\<close> such that every entry is an item of the
  table with status \<open>published\<close>; the entries are in descending order of
  \<open>createdAt\<close>; there are at most 50 of them, namely 50 or all the published items
  if these are fewer; every published item left out is no newer than any entry; and
  \<open>ps\<close> is empty, still with status 200, when the table holds no published item.
  The state of the store is unchanged.
\<close>

theorem list_posts_newest_first:
  assumes "fault db = None"
  shows "\<exists>ps. get_posts_handler dynamodb_query env event db =
                 (\<lparr>statusCode = 200, headers = cached_headers, body = JArr ps\<rparr>, db) \<and>
              (\<forall>p\<in>set ps. p \<in> set (items db) \<and>
                  property p (str ''status'') = Some (JStr (str ''published''))) \<and>
              sorted (rev (map sort_key_of ps)) \<and>
              length ps \<le> 50 \<and>
              length ps = min 50 (length (filter (\<lambda>i. in_status_index i \<and>
                  property i (str ''status'') = Some (JStr (str ''published''))) (items db))) \<and>
              (\<forall>p\<in>set ps. \<forall>i\<in>set (items db). in_status_index i \<and>
                  property i (str ''status'') = Some (JStr (str ''published'')) \<and> i \<notin> set ps \<longrightarrow>
                  sort_key_of i \<le> sort_key_of p) \<and>
              ((\<forall>i\<in>set (items db).
                  property i (str ''status'') \<noteq> Some (JStr (str ''published''))) \<longrightarrow> ps = [])"
proof -
  let ?pub = "filter (\<lambda>i. in_status_index i \<and>
                 property i (str ''status'') = Some (JStr (str ''published''))) (items db)"
  let ?desc = "rev (sort_key sort_key_of ?pub)"
  let ?ps = "take 50 ?desc"
  have h: "get_posts_handler dynamodb_query env event db =
             (\<lparr>statusCode = 200, headers = cached_headers, body = JArr ?ps\<rparr>, db)"
    by (simp add: get_posts_handler_def dynamodb_query_published [OF assms])
  have sub: "set ?ps \<subseteq> set ?pub"
    using set_take_subset [of 50 ?desc] by simp
  then have m: "\<forall>p\<in>set ?ps. p \<in> set (items db) \<and>
                  property p (str ''status'') = Some (JStr (str ''published''))"
    by auto
  have d: "sorted (rev (map sort_key_of ?desc))" by (simp add: rev_map)
  then have o: "sorted (rev (map sort_key_of ?ps))" by (rule sorted_rev_take)
  have l: "length ?ps \<le> 50" "length ?ps = min 50 (length ?pub)" by simp_all
  have e: "(\<forall>i\<in>set (items db).
              property i (str ''status'') \<noteq> Some (JStr (str ''published''))) \<longrightarrow> ?ps = []"
    by (auto simp: filter_empty_conv)
  have n: "\<forall>p\<in>set ?ps. \<forall>i\<in>set (items db). in_status_index i \<and>
                  property i (str ''status'') = Some (JStr (str ''published'')) \<and> i \<notin> set ?ps \<longrightarrow>
                  sort_key_of i \<le> sort_key_of p"
  proof (intro ballI impI)
    fix p i
    assume p: "p \<in> set ?ps" and "i \<in> set (items db)"
      and i: "in_status_index i \<and>
              property i (str ''status'') = Some (JStr (str ''published'')) \<and> i \<notin> set ?ps"
    then have mem: "i \<in> set ?desc" by simp
    from i have out: "i \<notin> set ?ps" by (elim conjE)
    show "sort_key_of i \<le> sort_key_of p"
      using sort_key_descending p mem out by (rule take_newest)
  qed
  from h m o l e n show ?thesis by blast
qed

theorem list_posts_newest_first_witness:
  "get_posts_handler dynamodb_query sample_env no_body_event feed_db =
     (\<lparr>statusCode = 200, headers = cached_headers, body = JArr [post_t2, post_t1]\<rparr>, feed_db) \<and>
   sorted (rev (map sort_key_of [post_t2, post_t1])) \<and>
   draft_t3 \<in> set (items feed_db) \<and>
   get_posts_handler dynamodb_query sample_env no_body_event empty_db =
     (\<lparr>statusCode = 200, headers = cached_headers, body = JArr []\<rparr>, empty_db)"
proof -
  have "fault feed_db = None" by (simp add: feed_db_def)
  from list_posts_newest_first [OF this, of sample_env no_body_event]
  obtain ps where ps:
    "get_posts_handler dynamodb_query sample_env no_body_event feed_db =
       (\<lparr>statusCode = 200, headers = cached_headers, body = JArr ps\<rparr>, feed_db)"
    "sorted (rev (map sort_key_of ps))"
    by blast
  from ps(1) have eq: "ps = [post_t2, post_t1]" by (simp add: feed_listed)
  have "fault empty_db = None" by (simp add: empty_db_def)
  from list_posts_newest_first [OF this, of sample_env no_body_event]
  have "get_posts_handler dynamodb_query sample_env no_body_event empty_db =
     (\<lparr>statusCode = 200, headers = cached_headers, body = JArr []\<rparr>, empty_db)"
    by (auto simp: empty_db_def)
  then show ?thesis using ps eq by (simp add: feed_db_def)
qed

end
